theory Spec2Isabelle
  imports Main "HOL-Library.Sublist"
begin

section \<open>The calendar agent of backend/langgraph_agent.py\<close>

text \<open>
  The agent alternates between a language-model node (\<open>run_llm\<close>) and a tool node
  (\<open>execute_tools\<close>) of a LangGraph state graph, and serves one chat request per run
  (\<open>chat_with_agent\<close>). The model follows the Python source function by function.
  What the source reaches through a library is a parameter: the model chain
  (\<open>llm_with_tools\<close>), the HTTP call \<open>requests.post\<close> (\<open>post\<close>), the step bound of
  the graph runtime (\<open>recursion_limit\<close>), and in the record \<open>lib\<close> the argument
  binding of the LangChain tool wrapper and the texts that \<open>str()\<close> gives. The outside world is a value \<open>w\<close> of any type,
  passed to every collaborator and returned by it, so that a collaborator may answer
  the same call differently each time. The \<open>print\<close> calls of the source are left out.
\<close>

subsection \<open>Values, messages, exceptions\<close>

text \<open>JSON-like Python values; a \<open>dict\<close> is an association list, read with \<open>map_of\<close>.\<close>

datatype jval =
    JNull
  | JBool bool
  | JInt int
  | JStr string
  | JList "jval list"
  | JDict "(string \<times> jval) list"

type_synonym jdict = "(string \<times> jval) list"

text \<open>
  A tool call as the model chain issues it: \<open>name\<close>, \<open>args\<close> and \<open>id\<close>, a string.
  LangChain's \<open>ToolCall\<close> type also admits the id \<open>None\<close>; for such a call the
  construction \<open>ToolMessage(content=output, tool_call_id=None)\<close>, which stands outside
  the \<open>try\<close> of \<open>execute_tools\<close>, raises. Calls without an id are not values of this
  type, and nothing below speaks about them.
\<close>

datatype tool_call = ToolCall (tc_name: string) (tc_args: jdict) (tc_id: string)

text \<open>
  The three message classes the source builds: \<open>HumanMessage(content)\<close>,
  \<open>AIMessage(content, tool_calls)\<close> and \<open>ToolMessage(content, tool_call_id)\<close>. The
  content of a message is text: a \<open>ToolMessage\<close> built from a tool's output holds
  \<open>str(output)\<close>.
\<close>

datatype message =
    HumanMessage string
  | AIMessage string "tool_call list"
  | ToolMessage string string

text \<open>
  Python exceptions. \<open>Raised msg\<close> is any other \<open>Exception\<close> whose \<open>str()\<close> is
  \<open>msg\<close>; \<open>GraphRecursionError\<close> is the one the graph runtime raises at its step bound.
\<close>

datatype exn = IndexError | GraphRecursionError | Raised string

text \<open>
  What the libraries contribute besides the collaborators: \<open>bind_args\<close>, how the
  LangChain wrapper of \<open>mcp_calendar_tool.invoke(args)\<close> binds the model's \<open>args\<close> to
  the parameters \<open>tool_name\<close> and \<open>**kwargs\<close> of the function, or raises;
  \<open>str_value\<close>, Python's \<open>str\<close> of a tool output; \<open>str_message\<close>, \<open>str\<close> of a message;
  and \<open>recursion_error_text\<close>, the text of the runtime's \<open>GraphRecursionError\<close>.
\<close>

type_synonym bind = "jdict \<Rightarrow> exn + string \<times> jdict"

record library =
  bind_args :: bind
  str_value :: "jval \<Rightarrow> string"
  str_message :: "message \<Rightarrow> string"
  recursion_error_text :: string

text \<open>\<open>str(e)\<close>, as in \<open>f"... {e}"\<close>.\<close>

fun str_exn :: "library \<Rightarrow> exn \<Rightarrow> string" where
  "str_exn lib IndexError = ''list index out of range''"
| "str_exn lib GraphRecursionError = recursion_error_text lib"
| "str_exn lib (Raised msg) = msg"

datatype http_exception = HTTPException nat string

text \<open>Decimal rendering of a status code inside an f-string.\<close>

definition digit_char :: "nat \<Rightarrow> char" where
  "digit_char d = ''0123456789'' ! d"

fun str_nat :: "nat \<Rightarrow> string" where
  "str_nat n = (if n < 10 then [digit_char n] else str_nat (n div 10) @ [digit_char (n mod 10)])"

declare str_nat.simps [simp del]

subsection \<open>The MCP proxy tool\<close>

text \<open>
  What \<open>requests.post(f"{MCP_SERVER_URL}/mcp/call", json={"tool": .., "parameters": ..},
  timeout=15)\<close> can do: raise a \<open>requests.RequestException\<close>, raise something else, or
  return a response. Of a response the source reads \<open>ok\<close>, \<open>status_code\<close>, \<open>text\<close> and
  \<open>json()\<close>, which raises \<open>ValueError\<close> (here \<open>None\<close>) on a body that is not JSON.
  \<open>ok\<close> is false exactly for the status codes from 400 to 599.
\<close>

record response =
  status_code :: nat
  resp_text :: string
  resp_json :: "jval option"

definition resp_ok :: "response \<Rightarrow> bool" where
  "resp_ok r = (\<not> (400 \<le> status_code r \<and> status_code r < 600))"

datatype post_outcome =
    RequestException string
  | OtherException string
  | Response response

type_synonym 'w post = "'w \<Rightarrow> string \<Rightarrow> jdict \<Rightarrow> post_outcome \<times> 'w"

text \<open>Step 1 of \<open>mcp_calendar_tool\<close>: the effective parameters.\<close>

definition normalize_kwargs :: "jdict \<Rightarrow> jdict" where
  "normalize_kwargs kwargs =
     (case map_of kwargs ''kwargs'' of
        Some (JDict inner) \<Rightarrow> inner
      | _ \<Rightarrow> kwargs)"

text \<open>Step 2: the alias table and \<open>TOOL_NAME_MAP.get(tool_name, tool_name)\<close>.\<close>

definition TOOL_NAME_MAP :: "(string \<times> string) list" where
  "TOOL_NAME_MAP =
     [(''create_calendar_event_tool'', ''calendar_create_event''),
      (''send_calendar_reminder_tool'', ''calendar_send_reminder''),
      (''sync_google_calendar_tool'', ''calendar_sync_google''),
      (''import_google_calendar_tool'', ''calendar_import_google''),
      (''calendar_create_event'', ''calendar_create_event''),
      (''calendar_send_reminder'', ''calendar_send_reminder''),
      (''calendar_sync_google'', ''calendar_sync_google''),
      (''calendar_import_google'', ''calendar_import_google'')]"

definition mcp_tool_id :: "string \<Rightarrow> string" where
  "mcp_tool_id tool_name =
     (case map_of TOOL_NAME_MAP tool_name of Some t \<Rightarrow> t | None \<Rightarrow> tool_name)"

definition failure :: "string \<Rightarrow> jval" where
  "failure msg = JDict [(''success'', JBool False), (''error'', JStr msg)]"

text \<open>
  Step 3: the call and the three ways it is turned into a failure value. An exception
  of \<open>requests.post\<close> that is not a \<open>RequestException\<close> leaves the function.
\<close>

definition mcp_calendar_tool ::
  "'w post \<Rightarrow> 'w \<Rightarrow> string \<Rightarrow> jdict \<Rightarrow> (exn + jval) \<times> 'w" where
  "mcp_calendar_tool post w tool_name kwargs =
     (let params = normalize_kwargs kwargs in
      case post w (mcp_tool_id tool_name) params of
        (RequestException e, w') \<Rightarrow>
          (Inr (failure (''Error communicating with MCP Server: '' @ e)), w')
      | (OtherException e, w') \<Rightarrow> (Inl (Raised e), w')
      | (Response resp, w') \<Rightarrow>
          if \<not> resp_ok resp then
            (Inr (failure (''MCP server returned '' @ str_nat (status_code resp) @ '': ''
                           @ resp_text resp)), w')
          else
            (case resp_json resp of
               None \<Rightarrow>
                 (Inr (failure (''MCP server returned non-JSON response: ''
                                @ take 200 (resp_text resp))), w')
             | Some data \<Rightarrow> (Inr data, w')))"

text \<open>\<open>mcp_calendar_tool.invoke(args)\<close>: the wrapper's binding, then the function.\<close>

definition tool_invoke :: "library \<Rightarrow> 'w post \<Rightarrow> 'w \<Rightarrow> jdict \<Rightarrow> (exn + jval) \<times> 'w" where
  "tool_invoke lib post w args =
     (case bind_args lib args of
        Inl e \<Rightarrow> (Inl e, w)
      | Inr (tool_name, kwargs) \<Rightarrow> mcp_calendar_tool post w tool_name kwargs)"

subsection \<open>The graph nodes\<close>

type_synonym 'w chain = "'w \<Rightarrow> message list \<Rightarrow> (exn + string \<times> tool_call list) \<times> 'w"

definition unavailable_text :: string where
  "unavailable_text =
     ''The AI agent backend is currently unavailable. Please check the Ollama server.''"

text \<open>\<open>run_llm\<close> returns the update \<open>{"messages": [result]}\<close>; here its list.\<close>

definition run_llm ::
  "'w chain option \<Rightarrow> 'w \<Rightarrow> message list \<Rightarrow> (exn + message list) \<times> 'w" where
  "run_llm llm_with_tools w messages =
     (case llm_with_tools of
        None \<Rightarrow> (Inr [AIMessage unavailable_text []], w)
      | Some chain \<Rightarrow>
          (case chain w messages of
             (Inl e, w') \<Rightarrow> (Inl e, w')
           | (Inr (content, tool_calls), w') \<Rightarrow> (Inr [AIMessage content tool_calls], w')))"

text \<open>\<open>getattr(last_message, "tool_calls", None)\<close>.\<close>

fun tool_calls_of :: "message \<Rightarrow> tool_call list option" where
  "tool_calls_of (AIMessage content tool_calls) = Some tool_calls"
| "tool_calls_of (HumanMessage content) = None"
| "tool_calls_of (ToolMessage content tool_call_id) = None"

text \<open>Python truth of \<open>tool_calls\<close>: \<open>None\<close> and the empty list are false.\<close>

fun truthy :: "tool_call list option \<Rightarrow> bool" where
  "truthy None = False"
| "truthy (Some []) = False"
| "truthy (Some (c # cs)) = True"

definition unknown_tool_text :: "string \<Rightarrow> string" where
  "unknown_tool_text name = ''Unknown tool '' @ [CHR 0x27] @ name @ [CHR 0x27] @ '' requested.''"

text \<open>The body of the \<open>for raw_call in iterable\<close> loop, up to \<open>output\<close>.\<close>

definition tool_output :: "library \<Rightarrow> 'w post \<Rightarrow> 'w \<Rightarrow> tool_call \<Rightarrow> jval \<times> 'w" where
  "tool_output lib post w raw_call =
     (if tc_name raw_call = ''mcp_calendar_tool'' then
        (case tool_invoke lib post w (tc_args raw_call) of
           (Inr output, w') \<Rightarrow> (output, w')
         | (Inl e, w') \<Rightarrow>
             (failure (''Error executing mcp_calendar_tool: '' @ str_exn lib e), w'))
      else (failure (unknown_tool_text (tc_name raw_call)), w))"

text \<open>
  The loop: one \<open>ToolMessage(content=output, tool_call_id=tool_call_id)\<close> per call, in
  the order of the calls; its content is the text \<open>str(output)\<close>.
\<close>

fun tool_loop :: "library \<Rightarrow> 'w post \<Rightarrow> 'w \<Rightarrow> tool_call list \<Rightarrow> message list \<times> 'w" where
  "tool_loop lib post w [] = ([], w)"
| "tool_loop lib post w (raw_call # rest) =
     (case tool_output lib post w raw_call of
        (output, w') \<Rightarrow>
          (case tool_loop lib post w' rest of
             (tool_messages, w'') \<Rightarrow>
               (ToolMessage (str_value lib output) (tc_id raw_call) # tool_messages, w'')))"

text \<open>
  \<open>execute_tools\<close> returns \<open>{"messages": messages}\<close> when the last message asks for
  no tool and \<open>{"messages": messages + tool_messages}\<close> otherwise; \<open>messages[-1]\<close>
  raises on an empty list. The tool calls of a message are a list here; the source also
  accepts a dict of calls and takes the list of its values. The \<open>args\<close> of a call are a
  dict, so \<open>raw_call.get("args", {}) or {}\<close> is \<open>tc_args\<close>.
\<close>

definition execute_tools ::
  "library \<Rightarrow> 'w post \<Rightarrow> 'w \<Rightarrow> message list \<Rightarrow> (exn + message list) \<times> 'w" where
  "execute_tools lib post w messages =
     (if messages = [] then (Inl IndexError, w)
      else
        (let tool_calls_raw = tool_calls_of (last messages) in
         if \<not> truthy tool_calls_raw then (Inr messages, w)
         else
           (let iterable = (case tool_calls_raw of Some calls \<Rightarrow> calls | None \<Rightarrow> []) in
            case tool_loop lib post w iterable of
              (tool_messages, w') \<Rightarrow> (Inr (messages @ tool_messages), w'))))"

definition should_continue :: "message list \<Rightarrow> exn + string" where
  "should_continue messages =
     (if messages = [] then Inl IndexError
      else if truthy (tool_calls_of (last messages)) then Inr ''continue_to_tools''
      else Inr ''end_graph'')"

subsection \<open>The compiled graph\<close>

text \<open>
  \<open>AgentState.messages\<close> is annotated with \<open>operator.add\<close>: the runtime stores the old
  list concatenated with the list a node returns.
\<close>

definition reducer :: "message list \<Rightarrow> message list \<Rightarrow> message list" where
  "reducer old update = old @ update"

datatype node = Agent | Action

datatype target = Goto node | END

text \<open>
  One node execution and the edge taken after it: the conditional edge of \<open>agent\<close>
  maps \<open>continue_to_tools\<close> to \<open>action\<close> and \<open>end_graph\<close> to \<open>END\<close>; \<open>action\<close> always
  goes back to \<open>agent\<close>.
\<close>

definition superstep ::
  "'w chain option \<Rightarrow> library \<Rightarrow> 'w post \<Rightarrow> node \<Rightarrow> 'w \<Rightarrow> message list
     \<Rightarrow> (exn + target \<times> message list) \<times> 'w" where
  "superstep llm_with_tools lib post nd w messages =
     (case nd of
        Agent \<Rightarrow>
          (case run_llm llm_with_tools w messages of
             (Inl e, w') \<Rightarrow> (Inl e, w')
           | (Inr update, w') \<Rightarrow>
               (let state = reducer messages update in
                case should_continue state of
                  Inl e \<Rightarrow> (Inl e, w')
                | Inr route \<Rightarrow>
                    if route = ''continue_to_tools'' then (Inr (Goto Action, state), w')
                    else (Inr (END, state), w')))
      | Action \<Rightarrow>
          (case execute_tools lib post w messages of
             (Inl e, w') \<Rightarrow> (Inl e, w')
           | (Inr update, w') \<Rightarrow> (Inr (Goto Agent, reducer messages update), w')))"

text \<open>
  The runtime executes nodes until \<open>END\<close>. The source sets no bound; the runtime has
  its own, \<open>recursion_limit\<close>, and raises \<open>GraphRecursionError\<close> once that many nodes
  have been executed, also when the last of them was routed to \<open>END\<close>: a run returns
  only if it needs fewer node executions than the bound. The first argument counts
  the node executions that remain. A bound of \<open>0\<close> is not one the runtime accepts,
  and no statement below is about it.
\<close>

fun graph_run ::
  "'w chain option \<Rightarrow> library \<Rightarrow> 'w post \<Rightarrow> nat \<Rightarrow> node \<Rightarrow> 'w \<Rightarrow> message list
     \<Rightarrow> (exn + message list) \<times> 'w" where
  "graph_run llm_with_tools lib post 0 nd w messages = (Inl GraphRecursionError, w)"
| "graph_run llm_with_tools lib post (Suc k) nd w messages =
     (case superstep llm_with_tools lib post nd w messages of
        (Inl e, w') \<Rightarrow> (Inl e, w')
      | (Inr (END, state), w') \<Rightarrow>
          if k = 0 then (Inl GraphRecursionError, w') else (Inr state, w')
      | (Inr (Goto nd', state), w') \<Rightarrow> graph_run llm_with_tools lib post k nd' w' state)"

text \<open>\<open>graph.invoke({"messages": initial_messages})\<close>: the entry point is \<open>agent\<close>.\<close>

definition graph_invoke ::
  "'w chain option \<Rightarrow> library \<Rightarrow> 'w post \<Rightarrow> nat \<Rightarrow> 'w \<Rightarrow> message list
     \<Rightarrow> (exn + message list) \<times> 'w" where
  "graph_invoke llm_with_tools lib post recursion_limit w initial_messages =
     graph_run llm_with_tools lib post recursion_limit Agent w (reducer [] initial_messages)"

subsection \<open>The chat endpoint\<close>

text \<open>
  The guard on \<open>llm_with_tools\<close>, then the body of the \<open>try\<close>: every exception of it
  becomes \<open>HTTPException(500)\<close>.
\<close>

definition chat_with_agent ::
  "'w chain option \<Rightarrow> library \<Rightarrow> 'w post \<Rightarrow> nat \<Rightarrow> 'w \<Rightarrow> string
     \<Rightarrow> (http_exception + string) \<times> 'w" where
  "chat_with_agent llm_with_tools lib post recursion_limit w request_message =
     (if llm_with_tools = None then
        (Inl (HTTPException 503
               ''LLM backend is unavailable. Please ensure Ollama is running.''), w)
      else
        (case graph_invoke llm_with_tools lib post recursion_limit w
                [HumanMessage request_message] of
           (Inl e, w') \<Rightarrow> (Inl (HTTPException 500 (''AI Agent Error: '' @ str_exn lib e)), w')
         | (Inr messages, w') \<Rightarrow>
             if messages = [] then
               (Inl (HTTPException 500 (''AI Agent Error: '' @ str_exn lib IndexError)), w')
             else
               (case last messages of
                  AIMessage content tool_calls \<Rightarrow> (Inr content, w')
                | final_message \<Rightarrow> (Inr (str_message lib final_message), w'))))"

subsection \<open>The MCP server's dispatcher (backend/mcp_calendar_server.py)\<close>

text \<open>
  \<open>call_tool\<close> dispatches on the tool id and raises \<open>HTTPException(400)\<close> for any
  other id. The four handlers are parameters; each returns a value or raises an
  \<open>HTTPException\<close>.
\<close>

type_synonym 'w handler = "'w \<Rightarrow> jdict \<Rightarrow> (http_exception + jval) \<times> 'w"

record 'w handlers =
  create_event_tool :: "'w handler"
  send_reminder_tool :: "'w handler"
  sync_google_tool :: "'w handler"
  import_google_tool :: "'w handler"

definition call_tool ::
  "'w handlers \<Rightarrow> 'w \<Rightarrow> string \<Rightarrow> jdict \<Rightarrow> (http_exception + jval) \<times> 'w" where
  "call_tool h w tool params =
     (if tool = ''calendar_create_event'' then create_event_tool h w params
      else if tool = ''calendar_send_reminder'' then send_reminder_tool h w params
      else if tool = ''calendar_sync_google'' then sync_google_tool h w params
      else if tool = ''calendar_import_google'' then import_google_tool h w params
      else (Inl (HTTPException 400 (''Unknown tool: '' @ tool)), w))"

text \<open>
  The agent's \<open>requests.post\<close> answered by this server. The web framework turns a
  raised \<open>HTTPException(code, detail)\<close> into a response with that status and a JSON
  body holding \<open>detail\<close>, and a returned value into a 200 response; the body texts
  (\<open>error_body\<close>, \<open>dumps\<close>) are parameters.
\<close>

definition mcp_call_endpoint ::
  "(http_exception \<Rightarrow> string) \<Rightarrow> (jval \<Rightarrow> string) \<Rightarrow> 'w handlers \<Rightarrow> 'w post" where
  "mcp_call_endpoint error_body dumps h w tool params =
     (case call_tool h w tool params of
        (Inl (HTTPException code detail), w') \<Rightarrow>
          (Response \<lparr>status_code = code,
                     resp_text = error_body (HTTPException code detail),
                     resp_json = Some (JDict [(''detail'', JStr detail)])\<rparr>, w')
      | (Inr data, w') \<Rightarrow>
          (Response \<lparr>status_code = 200, resp_text = dumps data, resp_json = Some data\<rparr>, w'))"

subsection \<open>Observers used in the statements\<close>

fun is_tool_message :: "message \<Rightarrow> bool" where
  "is_tool_message (ToolMessage content tool_call_id) = True"
| "is_tool_message (HumanMessage content) = False"
| "is_tool_message (AIMessage content tool_calls) = False"

text \<open>The \<open>tool_call_id\<close> of a \<open>ToolMessage\<close>.\<close>

fun request_id :: "message \<Rightarrow> string option" where
  "request_id (ToolMessage content tool_call_id) = Some tool_call_id"
| "request_id (HumanMessage content) = None"
| "request_id (AIMessage content tool_calls) = None"

subsection \<open>Rounds of a run\<close>

text \<open>
  \<open>tool_rounds n\<close> follows a run through \<open>n\<close> full rounds, each an execution of
  \<open>agent\<close> that is routed to \<open>action\<close> and the execution of \<open>action\<close> after it. It
  yields the world and the conversation state handed to the next execution of
  \<open>agent\<close>, and \<open>None\<close> when the run does not take \<open>n\<close> such rounds.
\<close>

fun tool_rounds ::
  "'w chain option \<Rightarrow> library \<Rightarrow> 'w post \<Rightarrow> nat \<Rightarrow> 'w \<Rightarrow> message list
     \<Rightarrow> ('w \<times> message list) option" where
  "tool_rounds llm_with_tools lib post 0 w messages = Some (w, messages)"
| "tool_rounds llm_with_tools lib post (Suc n) w messages =
     (case superstep llm_with_tools lib post Agent w messages of
        (Inr (Goto Action, state), w') \<Rightarrow>
          (case superstep llm_with_tools lib post Action w' state of
             (Inr (Goto Agent, state'), w'') \<Rightarrow>
               tool_rounds llm_with_tools lib post n w'' state'
           | _ \<Rightarrow> None)
      | _ \<Rightarrow> None)"

subsection \<open>Sample collaborators for the concrete runs\<close>

text \<open>
  A binding in the manner of the wrapper: it passes \<open>tool_name\<close> and the field
  \<open>kwargs\<close>, drops every other key, and raises without a \<open>tool_name\<close>.
\<close>

definition bind_schema :: bind where
  "bind_schema args =
     (case map_of args ''tool_name'' of
        Some (JStr tool_name) \<Rightarrow>
          Inr (tool_name,
               case map_of args ''kwargs'' of
                 Some v \<Rightarrow> [(''kwargs'', v)]
               | None \<Rightarrow> [])
      | _ \<Rightarrow> Inl (Raised ''tool_name: field required''))"

text \<open>
  A rendering of values in the manner of Python's \<open>str\<close>, for strings of printable
  ASCII characters.
\<close>

definition py_escape :: "char \<Rightarrow> string \<Rightarrow> string" where
  "py_escape q s =
     concat (map (\<lambda>c. if c = CHR 0x5C \<or> c = q then [CHR 0x5C, c] else [c]) s)"

definition py_quote :: "string \<Rightarrow> string" where
  "py_quote s =
     (let q = (if CHR 0x27 \<in> set s \<and> CHR 0x22 \<notin> set s then CHR 0x22 else CHR 0x27)
      in [q] @ py_escape q s @ [q])"

fun join_comma :: "string list \<Rightarrow> string" where
  "join_comma [] = []"
| "join_comma [x] = x"
| "join_comma (x # y # rest) = x @ '', '' @ join_comma (y # rest)"

primrec py_repr :: "jval \<Rightarrow> string" where
  "py_repr JNull = ''None''"
| "py_repr (JBool b) = (if b then ''True'' else ''False'')"
| "py_repr (JInt i) = (if i < 0 then ''-'' @ str_nat (nat (- i)) else str_nat (nat i))"
| "py_repr (JStr s) = py_quote s"
| "py_repr (JList xs) = ''['' @ join_comma (map py_repr xs) @ '']''"
| "py_repr (JDict kvs) =
     ''{'' @ join_comma (map (\<lambda>kv. py_quote (fst kv) @ '': '' @ snd kv)
                             (map (map_prod id py_repr) kvs)) @ ''}''"

declare py_repr.simps [simp del]

definition sample_library :: library where
  "sample_library =
     \<lparr>bind_args = bind_schema, str_value = py_repr, str_message = (\<lambda>m. ''message''),
      recursion_error_text = ''Recursion limit reached.''\<rparr>"





definition handler_ok :: "unit handler" where
  "handler_ok w params = (Inr (JDict [(''success'', JBool True)]), w)"

definition sample_handlers :: "unit handlers" where
  "sample_handlers =
     \<lparr>create_event_tool = handler_ok, send_reminder_tool = handler_ok,
      sync_google_tool = handler_ok, import_google_tool = handler_ok\<rparr>"

text \<open>The body \<open>{"detail":"..."}\<close> of an error response.\<close>

definition sample_error_body :: "http_exception \<Rightarrow> string" where
  "sample_error_body e =
     (case e of HTTPException code detail \<Rightarrow>
        ''{'' @ [CHR 0x22] @ ''detail'' @ [CHR 0x22] @ '':'' @ [CHR 0x22] @ detail
        @ [CHR 0x22] @ ''}'')"

definition sample_dumps :: "jval \<Rightarrow> string" where
  "sample_dumps data = ''ok''"

definition sample_post :: "unit post" where
  "sample_post = mcp_call_endpoint sample_error_body sample_dumps sample_handlers"

definition create_call :: "string \<Rightarrow> tool_call" where
  "create_call call_id =
     ToolCall ''mcp_calendar_tool''
       [(''tool_name'', JStr ''create_calendar_event_tool''),
        (''kwargs'', JDict [(''title'', JStr ''Meeting'')])]
       call_id"

text \<open>Asks for a tool on the first two decisions, then answers.\<close>

definition chain_two_rounds :: "unit chain" where
  "chain_two_rounds w messages =
     (if length messages = 1 then (Inr ([], [create_call ''call_1'']), w)
      else if length messages = 5 then (Inr ([], [create_call ''call_2'']), w)
      else (Inr (''Done.'', []), w))"

text \<open>Asks for a tool on every decision.\<close>

definition chain_always_tool :: "unit chain" where
  "chain_always_tool w messages = (Inr ([], [create_call ''call_1'']), w)"

text \<open>Unreachable from the first decision on, as with the model server down.\<close>

definition chain_down :: "unit chain" where
  "chain_down w messages = (Inl (Raised ''connection refused''), w)"





text \<open>The states of the run of \<open>chain_two_rounds\<close> on the message \<open>hi\<close>.\<close>

definition tool_ok :: "string \<Rightarrow> message" where
  "tool_ok call_id = ToolMessage (py_repr (JDict [(''success'', JBool True)])) call_id"

definition first_turn :: message where
  "first_turn = AIMessage [] [create_call ''call_1'']"

definition second_turn :: message where
  "second_turn = AIMessage [] [create_call ''call_2'']"

definition after_first_round :: "message list" where
  "after_first_round =
     [HumanMessage ''hi'', first_turn, HumanMessage ''hi'', first_turn, tool_ok ''call_1'']"

definition after_second_round :: "message list" where
  "after_second_round =
     (after_first_round @ [second_turn]) @
     ((after_first_round @ [second_turn]) @ [tool_ok ''call_2''])"

section \<open>Properties\<close>

subsection \<open>Auxiliary facts about the tool node\<close>

lemma tool_loop_shape:
  "tool_loop lib post w calls = (tms, w') \<Longrightarrow>
     length tms = length calls \<and>
     map request_id tms = map (\<lambda>c. Some (tc_id c)) calls \<and>
     (\<forall>m \<in> set tms. is_tool_message m)"
proof (induction calls arbitrary: w tms w')
  case Nil
  then show ?case by simp
next
  case (Cons c cs)
  obtain out w1 where o: "tool_output lib post w c = (out, w1)"
    by (cases "tool_output lib post w c")
  obtain rest w2 where r: "tool_loop lib post w1 cs = (rest, w2)"
    by (cases "tool_loop lib post w1 cs")
  from Cons.prems o r have t: "tms = ToolMessage (str_value lib out) (tc_id c) # rest"
    by simp
  from Cons.IH [OF r] t show ?case
    by simp
qed

lemma execute_tools_after_ai:
  assumes "messages \<noteq> []" and "last messages = AIMessage content calls"
  shows "execute_tools lib post w messages =
           (Inr (messages @ fst (tool_loop lib post w calls)),
            snd (tool_loop lib post w calls))"
proof (cases calls)
  case Nil
  with assms show ?thesis
    by (simp add: execute_tools_def)
next
  case (Cons c cs)
  with assms show ?thesis
    by (simp add: execute_tools_def split: prod.splits)
qed

lemma superstep_action_after_ai:
  assumes "messages \<noteq> []" and "last messages = AIMessage content calls"
  shows "superstep llm lib post Action w messages =
           (Inr (Goto Agent, messages @ messages @ fst (tool_loop lib post w calls)),
            snd (tool_loop lib post w calls))"
  using execute_tools_after_ai [OF assms, of lib post w]
  by (simp add: superstep_def reducer_def)

lemma execute_tools_returns:
  "messages \<noteq> [] \<Longrightarrow> \<exists>update w'. execute_tools lib post w messages = (Inr update, w')"
  by (simp add: execute_tools_def Let_def split: prod.splits)

lemma superstep_state:
  "superstep llm lib post nd w messages = (Inr (tgt, state), w') \<Longrightarrow>
     \<exists>update. state = messages @ update"
  by (auto simp: superstep_def reducer_def Let_def
           split: node.splits prod.splits sum.splits if_splits)













subsection \<open>Auxiliary facts about the graph\<close>

lemma superstep_agent_tools:
  assumes "chain w messages = (Inr (content, c # cs), w')"
  shows "superstep (Some chain) lib post Agent w messages =
           (Inr (Goto Action, messages @ [AIMessage content (c # cs)]), w')"
  using assms by (simp add: superstep_def run_llm_def reducer_def should_continue_def)

lemma superstep_agent_answer:
  assumes "chain w messages = (Inr (content, []), w')"
  shows "superstep (Some chain) lib post Agent w messages =
           (Inr (END, messages @ [AIMessage content []]), w')"
  using assms by (simp add: superstep_def run_llm_def reducer_def should_continue_def)

lemma superstep_agent_raises:
  assumes "chain w messages = (Inl e, w')"
  shows "superstep (Some chain) lib post Agent w messages = (Inl e, w')"
  using assms by (simp add: superstep_def run_llm_def)

lemma superstep_action_returns:
  assumes "messages \<noteq> []"
  shows "\<exists>state w'. superstep llm lib post Action w messages = (Inr (Goto Agent, state), w')"
  using execute_tools_returns [OF assms, of lib post w]
  by (auto simp: superstep_def)

lemma superstep_end:
  assumes "superstep llm lib post nd w messages = (Inr (END, state), w')"
  shows "state \<noteq> [] \<and> (\<exists>content. last state = AIMessage content [])"
proof -
  from assms obtain update where
    u: "run_llm llm w messages = (Inr update, w')" and
    s: "state = reducer messages update" and
    r: "should_continue state = Inr ''end_graph'' \<or>
        (\<exists>route. should_continue state = Inr route \<and> route \<noteq> ''continue_to_tools'')"
    by (auto simp: superstep_def Let_def
             split: node.splits prod.splits sum.splits if_splits)
  from u obtain content calls where c: "update = [AIMessage content calls]"
    by (auto simp: run_llm_def split: option.splits prod.splits sum.splits)
  from r s c have "\<not> truthy (Some calls)"
    by (auto simp: should_continue_def reducer_def split: if_splits)
  then have "calls = []"
    by (cases calls) simp_all
  with s c show ?thesis
    by (simp add: reducer_def)
qed

lemma graph_run_ends_with_answer:
  "graph_run llm lib post k nd w messages = (Inr final, w') \<Longrightarrow>
     final \<noteq> [] \<and> (\<exists>content. last final = AIMessage content [])"
proof (induction k arbitrary: nd w messages)
  case 0
  then show ?case by simp
next
  case (Suc k)
  obtain r w1 where st: "superstep llm lib post nd w messages = (r, w1)"
    by (cases "superstep llm lib post nd w messages")
  show ?case
  proof (cases r)
    case (Inl e)
    with st Suc.prems show ?thesis by simp
  next
    case (Inr p)
    obtain tgt state where p: "p = (tgt, state)" by (cases p)
    show ?thesis
    proof (cases tgt)
      case END
      with st Inr p Suc.prems have "final = state" by (simp split: if_splits)
      with superstep_end [of llm lib post nd w messages state w1] st Inr p END
      show ?thesis by simp
    next
      case (Goto nd')
      with st Inr p Suc.prems
      have "graph_run llm lib post k nd' w1 state = (Inr final, w')" by simp
      from Suc.IH [OF this] show ?thesis .
    qed
  qed
qed

lemma never_final_runs_out:
  assumes never: "\<forall>w h. \<exists>content calls w'. chain w h = (Inr (content, calls), w') \<and> calls \<noteq> []"
  shows "nd = Action \<longrightarrow> messages \<noteq> [] \<Longrightarrow>
           fst (graph_run (Some chain) lib post k nd w messages) = Inl GraphRecursionError"
proof (induction k arbitrary: nd w messages)
  case 0
  then show ?case by simp
next
  case (Suc k)
  show ?case
  proof (cases nd)
    case Agent
    from never obtain content calls w' where
      c: "chain w messages = (Inr (content, calls), w')" and ne: "calls \<noteq> []"
      by blast
    from ne obtain c1 cs where "calls = c1 # cs" by (cases calls) auto
    with c have "superstep (Some chain) lib post Agent w messages =
                   (Inr (Goto Action, messages @ [AIMessage content calls]), w')"
      using superstep_agent_tools [of chain w messages content c1 cs w' lib post] by simp
    with Agent
    have "graph_run (Some chain) lib post (Suc k) nd w messages =
            graph_run (Some chain) lib post k Action w' (messages @ [AIMessage content calls])"
      by simp
    with Suc.IH [of Action "messages @ [AIMessage content calls]" w'] show ?thesis
      by simp
  next
    case Action
    with Suc.prems have "messages \<noteq> []" by simp
    from superstep_action_returns [OF this, of "Some chain" lib post w]
    obtain state w' where
      "superstep (Some chain) lib post Action w messages = (Inr (Goto Agent, state), w')"
      by blast
    with Action
    have "graph_run (Some chain) lib post (Suc k) nd w messages =
            graph_run (Some chain) lib post k Agent w' state"
      by simp
    with Suc.IH [of Agent state w'] show ?thesis
      by simp
  qed
qed

lemma tool_rounds_Suc:
  assumes "tool_rounds llm lib post (Suc n) w messages = Some (w1, state)"
  shows "\<exists>wa sa wb sb.
           superstep llm lib post Agent w messages = (Inr (Goto Action, sa), wa) \<and>
           superstep llm lib post Action wa sa = (Inr (Goto Agent, sb), wb) \<and>
           tool_rounds llm lib post n wb sb = Some (w1, state)"
  using assms
  by (auto split: prod.splits sum.splits target.splits node.splits)

lemma graph_run_after_rounds:
  "tool_rounds llm lib post n w messages = Some (w1, state) \<Longrightarrow>
     graph_run llm lib post (2 * n + k) Agent w messages =
       graph_run llm lib post k Agent w1 state"
proof (induction n arbitrary: w messages)
  case 0
  then show ?case by simp
next
  case (Suc n)
  from tool_rounds_Suc [OF Suc.prems] obtain wa sa wb sb where
    a: "superstep llm lib post Agent w messages = (Inr (Goto Action, sa), wa)" and
    b: "superstep llm lib post Action wa sa = (Inr (Goto Agent, sb), wb)" and
    r: "tool_rounds llm lib post n wb sb = Some (w1, state)"
    by blast
  have "2 * Suc n + k = Suc (Suc (2 * n + k))" by simp
  with a b have "graph_run llm lib post (2 * Suc n + k) Agent w messages =
                   graph_run llm lib post (2 * n + k) Agent wb sb"
    by simp
  with Suc.IH [OF r] show ?case by simp
qed

lemma graph_run_short_of_rounds:
  "tool_rounds llm lib post n w messages = Some (w1, state) \<Longrightarrow> limit \<le> 2 * n \<Longrightarrow>
     fst (graph_run llm lib post limit Agent w messages) = Inl GraphRecursionError"
proof (induction n arbitrary: w messages limit)
  case 0
  then show ?case by simp
next
  case (Suc n)
  from tool_rounds_Suc [OF Suc.prems(1)] obtain wa sa wb sb where
    a: "superstep llm lib post Agent w messages = (Inr (Goto Action, sa), wa)" and
    b: "superstep llm lib post Action wa sa = (Inr (Goto Agent, sb), wb)" and
    r: "tool_rounds llm lib post n wb sb = Some (w1, state)"
    by blast
  show ?case
  proof (cases limit)
    case 0
    then show ?thesis by simp
  next
    case (Suc l)
    show ?thesis
    proof (cases l)
      case 0
      with Suc a show ?thesis by simp
    next
      case (Suc l')
      with \<open>limit = Suc l\<close> Suc.prems(2) have "l' \<le> 2 * n" by simp
      from Suc.IH [OF r this] a b Suc \<open>limit = Suc l\<close> show ?thesis by simp
    qed
  qed
qed

lemma chat_of_run:
  "chat_with_agent (Some chain) lib post limit w text =
     (case graph_invoke (Some chain) lib post limit w [HumanMessage text] of
        (Inl e, w') \<Rightarrow> (Inl (HTTPException 500 (''AI Agent Error: '' @ str_exn lib e)), w')
      | (Inr final, w') \<Rightarrow>
          (case last final of
             AIMessage content calls \<Rightarrow> (Inr content, w')
           | m \<Rightarrow> (Inr (str_message lib m), w')))"
proof (cases "graph_invoke (Some chain) lib post limit w [HumanMessage text]")
  case (Pair r w')
  show ?thesis
  proof (cases r)
    case (Inl e)
    with Pair show ?thesis by (simp add: chat_with_agent_def)
  next
    case (Inr final)
    with Pair have "final \<noteq> []"
      using graph_run_ends_with_answer [of "Some chain" lib post limit Agent w] 
      by (simp add: graph_invoke_def)
    with Pair Inr show ?thesis by (simp add: chat_with_agent_def)
  qed
qed

lemma run_answers_after_rounds:
  assumes r: "tool_rounds (Some chain) lib post n w messages = Some (w1, state)"
    and c: "chain w1 state = (Inr (content, []), w2)"
    and l: "2 * n + 1 < limit"
  shows "graph_run (Some chain) lib post limit Agent w messages =
           (Inr (state @ [AIMessage content []]), w2)"
proof -
  define k where "k = limit - (2 * n + 2)"
  with l have k: "limit = 2 * n + Suc (Suc k)"
    by simp
  have fin: "graph_run (Some chain) lib post (Suc (Suc k)) Agent w1 state =
               (Inr (state @ [AIMessage content []]), w2)"
    using c superstep_agent_answer [of chain w1 state content w2 lib post] by simp
  have "graph_run (Some chain) lib post limit Agent w messages =
          graph_run (Some chain) lib post (Suc (Suc k)) Agent w1 state"
    unfolding k by (rule graph_run_after_rounds [OF r])
  with fin show ?thesis by (simp only:)
qed

lemma run_raises_at_bound:
  assumes r: "tool_rounds (Some chain) lib post n w messages = Some (w1, state)"
    and c: "chain w1 state = (Inr (content, []), w2)"
  shows "graph_run (Some chain) lib post (2 * n + 1) Agent w messages =
           (Inl GraphRecursionError, w2)"
proof -
  have fin: "graph_run (Some chain) lib post (Suc 0) Agent w1 state =
               (Inl GraphRecursionError, w2)"
    using c superstep_agent_answer [of chain w1 state content w2 lib post] by simp
  have "graph_run (Some chain) lib post (2 * n + Suc 0) Agent w messages =
          graph_run (Some chain) lib post (Suc 0) Agent w1 state"
    by (rule graph_run_after_rounds [OF r])
  with fin show ?thesis by simp
qed

lemma run_short_of_rounds:
  assumes r: "tool_rounds (Some chain) lib post n w messages = Some (w1, state)"
    and c: "chain w1 state = (Inr (content, []), w2)"
    and l: "limit \<le> 2 * n + 1"
  shows "fst (graph_run (Some chain) lib post limit Agent w messages) = Inl GraphRecursionError"
proof (cases "limit = 2 * n + 1")
  case True
  with run_raises_at_bound [OF r c] show ?thesis by simp
next
  case False
  with l have "limit \<le> 2 * n" by simp
  with r show ?thesis by (rule graph_run_short_of_rounds)
qed

lemma always_tool_never_answers:
  "\<forall>w h. \<exists>content calls w'. chain_always_tool w h = (Inr (content, calls), w') \<and> calls \<noteq> []"
  by (simp add: chain_always_tool_def)

subsection \<open>The sample run, step by step\<close>

lemma sample_library_sel:
  "bind_args sample_library = bind_schema" "str_value sample_library = py_repr"
  "recursion_error_text sample_library = ''Recursion limit reached.''"
  by (simp_all add: sample_library_def)

lemma create_call_sel:
  "tc_name (create_call i) = ''mcp_calendar_tool''" "tc_id (create_call i) = i"
  by (simp_all add: create_call_def)

lemma sample_tool_output:
  "tool_output sample_library sample_post () (create_call call_id) =
     (JDict [(''success'', JBool True)], ())"
  by (simp add: tool_output_def create_call_def tool_invoke_def sample_library_sel bind_schema_def
                mcp_calendar_tool_def normalize_kwargs_def mcp_tool_id_def TOOL_NAME_MAP_def
                sample_post_def mcp_call_endpoint_def call_tool_def sample_handlers_def
                handler_ok_def resp_ok_def)

lemma sample_tool_loop:
  "tool_loop sample_library sample_post () [create_call call_id] = ([tool_ok call_id], ())"
  by (simp add: sample_tool_output create_call_sel tool_ok_def sample_library_sel)

lemma first_agent_step:
  "superstep (Some chain_two_rounds) lib post Agent () [HumanMessage ''hi''] =
     (Inr (Goto Action, [HumanMessage ''hi'', first_turn]), ())"
  using superstep_agent_tools [of chain_two_rounds "()" "[HumanMessage ''hi'']" "[]"
                                  "create_call ''call_1''" "[]" "()" lib post]
  by (simp add: chain_two_rounds_def first_turn_def)

lemma first_action_step:
  "superstep llm sample_library sample_post Action () [HumanMessage ''hi'', first_turn] =
     (Inr (Goto Agent, after_first_round), ())"
  using superstep_action_after_ai [of "[HumanMessage ''hi'', first_turn]" "[]"
                                     "[create_call ''call_1'']" llm sample_library sample_post "()"]
  by (simp add: first_turn_def after_first_round_def sample_tool_loop del: tool_loop.simps)

lemma second_agent_step:
  "superstep (Some chain_two_rounds) lib post Agent () after_first_round =
     (Inr (Goto Action, after_first_round @ [second_turn]), ())"
  using superstep_agent_tools [of chain_two_rounds "()" after_first_round "[]"
                                  "create_call ''call_2''" "[]" "()" lib post]
  by (simp add: chain_two_rounds_def second_turn_def after_first_round_def)

lemma second_action_step:
  "superstep llm sample_library sample_post Action () (after_first_round @ [second_turn]) =
     (Inr (Goto Agent, after_second_round), ())"
  using superstep_action_after_ai [of "after_first_round @ [second_turn]" "[]"
                                     "[create_call ''call_2'']" llm sample_library sample_post "()"]
  by (simp add: second_turn_def after_second_round_def sample_tool_loop del: tool_loop.simps)

lemma two_rounds_of_sample:
  "tool_rounds (Some chain_two_rounds) sample_library sample_post 2 () [HumanMessage ''hi''] =
     Some ((), after_second_round)"
  by (simp add: numeral_2_eq_2 first_agent_step first_action_step second_agent_step
                second_action_step)

lemma third_decision:
  "chain_two_rounds () after_second_round = (Inr (''Done.'', []), ())"
  by (simp add: chain_two_rounds_def after_second_round_def after_first_round_def)



lemma graph_run_extends:
  "graph_run llm lib post k nd w messages = (Inr final, w') \<Longrightarrow> prefix messages final"
proof (induction k arbitrary: nd w messages)
  case 0
  then show ?case by simp
next
  case (Suc k)
  obtain r w1 where st: "superstep llm lib post nd w messages = (r, w1)"
    by (cases "superstep llm lib post nd w messages")
  show ?case
  proof (cases r)
    case (Inl e)
    with st Suc.prems show ?thesis by simp
  next
    case (Inr p)
    obtain tgt state where p: "p = (tgt, state)" by (cases p)
    from st Inr p have pre: "prefix messages state"
      by (auto dest!: superstep_state)
    show ?thesis
    proof (cases tgt)
      case END
      with st Inr p Suc.prems pre show ?thesis by (simp split: if_splits)
    next
      case (Goto nd')
      with st Inr p Suc.prems
      have "graph_run llm lib post k nd' w1 state = (Inr final, w')" by simp
      from Suc.IH [OF this] pre show ?thesis
        by (rule prefix_order.trans [rotated])
    qed
  qed
qed

lemma sample_run:
  "graph_run (Some chain_two_rounds) sample_library sample_post 25 Agent () [HumanMessage ''hi''] =
     (Inr (after_second_round @ [AIMessage ''Done.'' []]), ())"
  using run_answers_after_rounds [of chain_two_rounds sample_library sample_post 2 "()"
          "[HumanMessage ''hi'']" "()" after_second_round "''Done.''" "()" 25]
        two_rounds_of_sample third_decision
  by simp

lemma chat_outcomes:
  "(chat_with_agent None lib post limit w user_text =
      (Inl (HTTPException 503
             ''LLM backend is unavailable. Please ensure Ollama is running.''), w)) \<and>
   ((\<exists>final w' content.
       graph_invoke (Some chain) lib post limit w [HumanMessage user_text] = (Inr final, w') \<and>
       final \<noteq> [] \<and> last final = AIMessage content [] \<and>
       chat_with_agent (Some chain) lib post limit w user_text = (Inr content, w')) \<or>
    (\<exists>e w'.
       graph_invoke (Some chain) lib post limit w [HumanMessage user_text] = (Inl e, w') \<and>
       chat_with_agent (Some chain) lib post limit w user_text =
         (Inl (HTTPException 500 (''AI Agent Error: '' @ str_exn lib e)), w'))) \<and>
   (chain w [HumanMessage user_text] = (Inl e, w') \<and> 0 < limit \<longrightarrow>
      chat_with_agent (Some chain) lib post limit w user_text =
        (Inl (HTTPException 500 (''AI Agent Error: '' @ str_exn lib e)), w'))"
proof (intro conjI impI)
  show "chat_with_agent None lib post limit w user_text =
      (Inl (HTTPException 503
             ''LLM backend is unavailable. Please ensure Ollama is running.''), w)"
    by (simp add: chat_with_agent_def)
next
  obtain r w1 where g: "graph_invoke (Some chain) lib post limit w [HumanMessage user_text] = (r, w1)"
    by (cases "graph_invoke (Some chain) lib post limit w [HumanMessage user_text]")
  show "(\<exists>final w' content.
       graph_invoke (Some chain) lib post limit w [HumanMessage user_text] = (Inr final, w') \<and>
       final \<noteq> [] \<and> last final = AIMessage content [] \<and>
       chat_with_agent (Some chain) lib post limit w user_text = (Inr content, w')) \<or>
    (\<exists>e w'.
       graph_invoke (Some chain) lib post limit w [HumanMessage user_text] = (Inl e, w') \<and>
       chat_with_agent (Some chain) lib post limit w user_text =
         (Inl (HTTPException 500 (''AI Agent Error: '' @ str_exn lib e)), w'))"
  proof (cases r)
    case (Inl e)
    with g have "chat_with_agent (Some chain) lib post limit w user_text =
         (Inl (HTTPException 500 (''AI Agent Error: '' @ str_exn lib e)), w1)"
      by (simp add: chat_of_run)
    with g Inl show ?thesis by blast
  next
    case (Inr final)
    with g have "graph_run (Some chain) lib post limit Agent w [HumanMessage user_text] =
                   (Inr final, w1)"
      by (simp add: graph_invoke_def reducer_def)
    from graph_run_ends_with_answer [OF this]
    obtain content where f: "final \<noteq> []" "last final = AIMessage content []"
      by blast
    with g Inr have "chat_with_agent (Some chain) lib post limit w user_text =
                       (Inr content, w1)"
      by (simp add: chat_of_run)
    with g Inr f show ?thesis by blast
  qed
next
  assume a: "chain w [HumanMessage user_text] = (Inl e, w') \<and> 0 < limit"
  then obtain k where k: "limit = Suc k" by (cases limit) auto
  from a have "superstep (Some chain) lib post Agent w [HumanMessage user_text] = (Inl e, w')"
    using superstep_agent_raises [of chain w "[HumanMessage user_text]" e w' lib post] by simp
  with k have "graph_invoke (Some chain) lib post limit w [HumanMessage user_text] = (Inl e, w')"
    by (simp add: graph_invoke_def reducer_def)
  then show "chat_with_agent (Some chain) lib post limit w user_text =
        (Inl (HTTPException 500 (''AI Agent Error: '' @ str_exn lib e)), w')"
    by (simp add: chat_of_run)
qed

subsection \<open>Argument normalization\<close>

text \<open>
  C6, as the code has it. A mapping with no key \<open>kwargs\<close> bound to a mapping is
  returned as it is; the wrapper \<open>{"kwargs": inner}\<close> yields \<open>inner\<close>; and normalizing
  twice is normalizing once whenever the first result has no key \<open>kwargs\<close> bound to a
  mapping (so for flat inputs and for a wrapper around a flat mapping).
\<close>

theorem normalize_kwargs_flat_wrapper_idem:
  "((\<forall>inner. map_of m ''kwargs'' \<noteq> Some (JDict inner)) \<longrightarrow> normalize_kwargs m = m) \<and>
   normalize_kwargs [(''kwargs'', JDict inner)] = inner \<and>
   ((\<forall>i. map_of (normalize_kwargs x) ''kwargs'' \<noteq> Some (JDict i)) \<longrightarrow>
      normalize_kwargs (normalize_kwargs x) = normalize_kwargs x)"
  by (auto simp: normalize_kwargs_def split: option.splits jval.splits)

theorem normalize_kwargs_flat_wrapper_idem_witness:
  "normalize_kwargs [(''title'', JStr ''Meeting'')] = [(''title'', JStr ''Meeting'')] \<and>
   normalize_kwargs [(''kwargs'', JDict [(''title'', JStr ''Meeting'')])] =
     [(''title'', JStr ''Meeting'')] \<and>
   normalize_kwargs (normalize_kwargs [(''kwargs'', JDict [(''title'', JStr ''Meeting'')])]) =
     normalize_kwargs [(''kwargs'', JDict [(''title'', JStr ''Meeting'')])]"
  using normalize_kwargs_flat_wrapper_idem
          [of "[(''title'', JStr ''Meeting'')]" "[(''title'', JStr ''Meeting'')]"
              "[(''kwargs'', JDict [(''title'', JStr ''Meeting'')])]"]
  by (simp add: normalize_kwargs_def)

text \<open>
  C6 as stated fails for a single-key wrapper whose inner mapping is again such a
  wrapper: the second normalization unwraps once more.
\<close>

theorem normalize_kwargs_not_idempotent_counterexample:
  "normalize_kwargs
     (normalize_kwargs [(''kwargs'', JDict [(''kwargs'', JDict [(''a'', JInt 1)])])]) \<noteq>
   normalize_kwargs [(''kwargs'', JDict [(''kwargs'', JDict [(''a'', JInt 1)])])]"
  by (simp add: normalize_kwargs_def)

text \<open>
  C9. Whenever the key \<open>kwargs\<close> is bound to a mapping, that mapping is the result,
  whatever other keys stand beside it; a single key of any other name is not
  unwrapped; and a key \<open>kwargs\<close> inside the inner mapping stays there.
\<close>

theorem normalize_kwargs_unwraps_literal_key_once:
  "(map_of kwargs ''kwargs'' = Some (JDict inner) \<longrightarrow> normalize_kwargs kwargs = inner) \<and>
   (k \<noteq> ''kwargs'' \<longrightarrow> normalize_kwargs [(k, v)] = [(k, v)]) \<and>
   (map_of inner ''kwargs'' = Some v' \<longrightarrow>
      normalize_kwargs [(''kwargs'', JDict inner)] = inner \<and>
      map_of (normalize_kwargs [(''kwargs'', JDict inner)]) ''kwargs'' = Some v')"
  by (auto simp: normalize_kwargs_def)

theorem normalize_kwargs_unwraps_literal_key_once_witness:
  "normalize_kwargs
     [(''title'', JStr ''Lunch''), (''kwargs'', JDict [(''kwargs'', JDict [])])] =
     [(''kwargs'', JDict [])] \<and>
   normalize_kwargs [(''args'', JDict [(''kwargs'', JDict [])])] =
     [(''args'', JDict [(''kwargs'', JDict [])])] \<and>
   map_of (normalize_kwargs [(''kwargs'', JDict [(''kwargs'', JDict [])])]) ''kwargs'' =
     Some (JDict [])"
  using normalize_kwargs_unwraps_literal_key_once
          [of "[(''title'', JStr ''Lunch''), (''kwargs'', JDict [(''kwargs'', JDict [])])]"
              "[(''kwargs'', JDict [])]" "''args''" "JDict [(''kwargs'', JDict [])]"
              "JDict []"]
  by simp

subsection \<open>The conversation state under the graph's steps\<close>

text \<open>
  C3. Every node execution leaves the stored messages as a prefix of the new state:
  each old position holds the message it held before. So does a whole run from any
  node and state to its final state.
\<close>

theorem superstep_appends_only:
  "(superstep llm lib post nd w messages = (Inr (tgt, state), w') \<longrightarrow>
      prefix messages state \<and> (\<forall>i < length messages. state ! i = messages ! i)) \<and>
   (graph_run llm lib post k nd w messages = (Inr final, w'') \<longrightarrow>
      prefix messages final \<and> (\<forall>i < length messages. final ! i = messages ! i))"
proof (intro conjI impI)
  assume "superstep llm lib post nd w messages = (Inr (tgt, state), w')"
  then obtain update where u: "state = messages @ update"
    by (auto dest!: superstep_state)
  then show "prefix messages state" by simp
  from u show "\<forall>i < length messages. state ! i = messages ! i"
    by (simp add: nth_append)
next
  assume "graph_run llm lib post k nd w messages = (Inr final, w'')"
  then have "prefix messages final" by (rule graph_run_extends)
  then obtain rest where r: "final = messages @ rest"
    by (auto simp: prefix_def)
  then show "prefix messages final" by simp
  from r show "\<forall>i < length messages. final ! i = messages ! i"
    by (simp add: nth_append)
qed

theorem superstep_appends_only_witness:
  "superstep (Some chain_two_rounds) sample_library sample_post Agent () [HumanMessage ''hi''] =
     (Inr (Goto Action, [HumanMessage ''hi'', first_turn]), ()) \<and>
   prefix [HumanMessage ''hi''] [HumanMessage ''hi'', first_turn] \<and>
   graph_run (Some chain_two_rounds) sample_library sample_post 25 Agent () [HumanMessage ''hi''] =
     (Inr (after_second_round @ [AIMessage ''Done.'' []]), ()) \<and>
   prefix [HumanMessage ''hi''] (after_second_round @ [AIMessage ''Done.'' []]) \<and>
   (after_second_round @ [AIMessage ''Done.'' []]) ! 0 = HumanMessage ''hi''"
  using superstep_appends_only [where llm = "Some chain_two_rounds" and lib = sample_library and post = sample_post
              and nd = Agent and w = "()" and messages = "[HumanMessage ''hi'']"
              and tgt = "Goto Action" and state = "[HumanMessage ''hi'', first_turn]"
              and w' = "()" and k = 25
              and final = "after_second_round @ [AIMessage ''Done.'' []]" and w'' = "()"]
        first_agent_step [of sample_library sample_post] sample_run
  by simp

text \<open>
  C8. After an assistant message with \<open>k\<close> tool calls, \<open>execute_tools\<close> returns the
  whole prior list followed by \<open>k\<close> tool messages, and the reducer stores the prior
  list followed by that return: \<open>2n + k\<close> messages from \<open>n\<close>.
\<close>

theorem execute_tools_step_duplicates_history:
  assumes "messages \<noteq> []" and "last messages = AIMessage content tool_calls"
  shows "\<exists>tool_messages w'.
           execute_tools lib post w messages = (Inr (messages @ tool_messages), w') \<and>
           superstep llm lib post Action w messages =
             (Inr (Goto Agent, messages @ (messages @ tool_messages)), w') \<and>
           length tool_messages = length tool_calls \<and>
           (\<forall>m \<in> set tool_messages. is_tool_message m) \<and>
           length (messages @ (messages @ tool_messages)) =
             2 * length messages + length tool_calls"
proof -
  obtain tms w' where l: "tool_loop lib post w tool_calls = (tms, w')"
    by (cases "tool_loop lib post w tool_calls")
  from tool_loop_shape [OF l]
  have "length tms = length tool_calls" and "\<forall>m \<in> set tms. is_tool_message m"
    by simp_all
  moreover from execute_tools_after_ai [OF assms, of lib post w] l
  have "execute_tools lib post w messages = (Inr (messages @ tms), w')" by simp
  moreover from superstep_action_after_ai [OF assms, of llm lib post w] l
  have "superstep llm lib post Action w messages =
          (Inr (Goto Agent, messages @ (messages @ tms)), w')" by simp
  ultimately show ?thesis by force
qed

theorem execute_tools_step_duplicates_history_witness:
  "last [HumanMessage ''hi'', AIMessage [] [create_call ''call_1'']] =
     AIMessage [] [create_call ''call_1''] \<and>
   (\<exists>tool_messages w'.
      superstep (Some chain_two_rounds) sample_library sample_post Action ()
        [HumanMessage ''hi'', AIMessage [] [create_call ''call_1'']] =
        (Inr (Goto Agent,
              [HumanMessage ''hi'', AIMessage [] [create_call ''call_1'']] @
              ([HumanMessage ''hi'', AIMessage [] [create_call ''call_1'']] @ tool_messages)),
         w') \<and>
      length tool_messages = 1 \<and>
      length ([HumanMessage ''hi'', AIMessage [] [create_call ''call_1'']] @
              ([HumanMessage ''hi'', AIMessage [] [create_call ''call_1'']] @ tool_messages)) = 5)"
  using execute_tools_step_duplicates_history
          [of "[HumanMessage ''hi'', AIMessage [] [create_call ''call_1'']]" "[]"
              "[create_call ''call_1'']" sample_library sample_post "()" "Some chain_two_rounds"]
  by auto

subsection \<open>Failures of a tool call\<close>



subsection \<open>Unknown tool names\<close>



subsection \<open>Tool results in the stored conversation\<close>

text \<open>
  C2, evaluated on a run with two tool rounds. The model asks for \<open>call_1\<close>, then for
  \<open>call_2\<close>. The second execution of \<open>action\<close> stores, after the assistant message
  that asked for \<open>call_2\<close> alone, the whole earlier conversation again and then the new
  result: two tool messages, the first of them the result of \<open>call_1\<close>.
\<close>

theorem second_tool_step_appends_earlier_results:
  "tool_rounds (Some chain_two_rounds) sample_library sample_post 1 () [HumanMessage ''hi''] =
     Some ((), after_first_round) \<and>
   superstep (Some chain_two_rounds) sample_library sample_post Agent () after_first_round =
     (Inr (Goto Action, after_first_round @ [second_turn]), ()) \<and>
   superstep (Some chain_two_rounds) sample_library sample_post Action ()
       (after_first_round @ [second_turn]) =
     (Inr (Goto Agent,
           (after_first_round @ [second_turn]) @
           ((after_first_round @ [second_turn]) @ [tool_ok ''call_2''])), ()) \<and>
   tool_calls_of second_turn = Some [create_call ''call_2''] \<and>
   map request_id
     (filter is_tool_message ((after_first_round @ [second_turn]) @ [tool_ok ''call_2''])) =
     [Some ''call_1'', Some ''call_2'']"
proof -
  have "tool_rounds (Some chain_two_rounds) sample_library sample_post 1 () [HumanMessage ''hi''] =
     Some ((), after_first_round)"
    by (simp add: first_agent_step first_action_step)
  moreover have "map request_id
     (filter is_tool_message ((after_first_round @ [second_turn]) @ [tool_ok ''call_2''])) =
     [Some ''call_1'', Some ''call_2'']"
    by (simp add: after_first_round_def first_turn_def second_turn_def tool_ok_def)
  moreover have "tool_calls_of second_turn = Some [create_call ''call_2'']"
    by (simp add: second_turn_def)
  ultimately show ?thesis
    using second_agent_step [of sample_library sample_post]
          second_action_step [of "Some chain_two_rounds"]
    by (simp add: after_second_round_def)
qed

subsection \<open>Termination of a run\<close>

text \<open>
  C1, as the code has it. If the model asks for tools in its first \<open>n\<close> decisions
  and answers without tool calls in the next, the run needs \<open>2n + 1\<close> node
  executions and ends with that answer as the last message under every bound of the
  runtime greater than \<open>2n + 1\<close>; under a bound from \<open>1\<close> to \<open>2n + 1\<close> it ends with
  the runtime's \<open>GraphRecursionError\<close>. The source sets no iteration count of its own and
  builds no message for that case: with a model that asks for tools on every
  decision the run ends, under every bound, with \<open>GraphRecursionError\<close>, which the
  chat endpoint reports as HTTP 500.
\<close>

theorem run_ends_when_provider_answers:
  "(tool_rounds (Some chain) lib post n w messages = Some (w1, state) \<and>
    chain w1 state = (Inr (content, []), w2) \<and> 2 * n + 1 < limit \<longrightarrow>
      graph_invoke (Some chain) lib post limit w messages =
        (Inr (state @ [AIMessage content []]), w2)) \<and>
   (tool_rounds (Some chain) lib post n w messages = Some (w1, state) \<and>
    chain w1 state = (Inr (content, []), w2) \<and> 0 < limit \<and> limit \<le> 2 * n + 1 \<longrightarrow>
      fst (graph_invoke (Some chain) lib post limit w messages) = Inl GraphRecursionError) \<and>
   ((\<forall>w h. \<exists>content calls w'. chain w h = (Inr (content, calls), w') \<and> calls \<noteq> []) \<and>
    0 < limit \<longrightarrow>
      fst (graph_invoke (Some chain) lib post limit w messages) = Inl GraphRecursionError \<and>
      fst (chat_with_agent (Some chain) lib post limit w user_text) =
        Inl (HTTPException 500 (''AI Agent Error: '' @ str_exn lib GraphRecursionError)))"
proof (intro conjI impI)
  assume a: "tool_rounds (Some chain) lib post n w messages = Some (w1, state) \<and>
    chain w1 state = (Inr (content, []), w2) \<and> 2 * n + 1 < limit"
  then have r: "tool_rounds (Some chain) lib post n w messages = Some (w1, state)"
    and c: "chain w1 state = (Inr (content, []), w2)" and l: "2 * n + 1 < limit"
    by blast+
  from run_answers_after_rounds [of chain lib post n w messages w1 state content w2 limit,
                                 OF r c l]
  show "graph_invoke (Some chain) lib post limit w messages =
          (Inr (state @ [AIMessage content []]), w2)"
    by (simp only: graph_invoke_def reducer_def append_Nil)
next
  assume a: "tool_rounds (Some chain) lib post n w messages = Some (w1, state) \<and>
    chain w1 state = (Inr (content, []), w2) \<and> 0 < limit \<and> limit \<le> 2 * n + 1"
  then have r: "tool_rounds (Some chain) lib post n w messages = Some (w1, state)"
    and c: "chain w1 state = (Inr (content, []), w2)" and l: "limit \<le> 2 * n + 1"
    by blast+
  from run_short_of_rounds [of chain lib post n w messages w1 state content w2 limit,
                            OF r c l]
  show "fst (graph_invoke (Some chain) lib post limit w messages) = Inl GraphRecursionError"
    by (simp only: graph_invoke_def reducer_def append_Nil)
next
  assume "(\<forall>w h. \<exists>content calls w'. chain w h = (Inr (content, calls), w') \<and> calls \<noteq> []) \<and>
    0 < limit"
  then have never:
    "\<forall>w h. \<exists>content calls w'. chain w h = (Inr (content, calls), w') \<and> calls \<noteq> []"
    by blast
  have "Agent = Action \<longrightarrow> messages \<noteq> []" by simp
  from never_final_runs_out [of chain Agent messages lib post limit w, OF never this]
  show "fst (graph_invoke (Some chain) lib post limit w messages) = Inl GraphRecursionError"
    by (simp only: graph_invoke_def reducer_def append_Nil)
next
  assume "(\<forall>w h. \<exists>content calls w'. chain w h = (Inr (content, calls), w') \<and> calls \<noteq> []) \<and>
    0 < limit"
  then have never:
    "\<forall>w h. \<exists>content calls w'. chain w h = (Inr (content, calls), w') \<and> calls \<noteq> []"
    by blast
  have "Agent = Action \<longrightarrow> [HumanMessage user_text] \<noteq> []" by simp
  from never_final_runs_out [of chain Agent "[HumanMessage user_text]" lib post limit w,
                             OF never this]
  have "fst (graph_invoke (Some chain) lib post limit w [HumanMessage user_text]) =
          Inl GraphRecursionError"
    by (simp only: graph_invoke_def reducer_def append_Nil)
  then show "fst (chat_with_agent (Some chain) lib post limit w user_text) =
        Inl (HTTPException 500 (''AI Agent Error: '' @ str_exn lib GraphRecursionError))"
    by (cases "graph_invoke (Some chain) lib post limit w [HumanMessage user_text]")
       (simp add: chat_of_run)
qed

theorem run_ends_when_provider_answers_witness:
  "tool_rounds (Some chain_two_rounds) sample_library sample_post 2 () [HumanMessage ''hi''] =
     Some ((), after_second_round) \<and>
   chain_two_rounds () after_second_round = (Inr (''Done.'', []), ()) \<and>
   graph_invoke (Some chain_two_rounds) sample_library sample_post 6 () [HumanMessage ''hi''] =
     (Inr (after_second_round @ [AIMessage ''Done.'' []]), ()) \<and>
   fst (graph_invoke (Some chain_two_rounds) sample_library sample_post 5 ()
          [HumanMessage ''hi'']) = Inl GraphRecursionError \<and>
   (\<forall>w h. \<exists>content calls w'.
      chain_always_tool w h = (Inr (content, calls), w') \<and> calls \<noteq> []) \<and>
   fst (graph_invoke (Some chain_always_tool) sample_library sample_post 25 ()
          [HumanMessage ''hi'']) = Inl GraphRecursionError \<and>
   fst (chat_with_agent (Some chain_always_tool) sample_library sample_post 25 () ''hi'') =
     Inl (HTTPException 500 (''AI Agent Error: '' @ str_exn sample_library GraphRecursionError))"
  using run_ends_when_provider_answers
          [where chain = chain_two_rounds and lib = sample_library and post = sample_post
             and n = 2 and w = "()" and messages = "[HumanMessage ''hi'']" and ?w1.0 = "()"
             and state = after_second_round and content = "''Done.''" and ?w2.0 = "()"
             and limit = 6 and user_text = "''hi''"]
        run_ends_when_provider_answers
          [where chain = chain_two_rounds and lib = sample_library and post = sample_post
             and n = 2 and w = "()" and messages = "[HumanMessage ''hi'']" and ?w1.0 = "()"
             and state = after_second_round and content = "''Done.''" and ?w2.0 = "()"
             and limit = 5 and user_text = "''hi''"]
        run_ends_when_provider_answers
          [where chain = chain_always_tool and lib = sample_library and post = sample_post
             and w = "()" and messages = "[HumanMessage ''hi'']" and limit = 25
             and user_text = "''hi''"]
        two_rounds_of_sample third_decision always_tool_never_answers
  by (simp del: str_exn.simps)

text \<open>
  C1 as stated fails for a model that always asks for a tool: the run ends with the
  runtime's error, not with an assistant message about the iteration limit.
\<close>

theorem no_synthetic_turn_counterexample:
  "fst (graph_invoke (Some chain_always_tool) sample_library sample_post 25 ()
          [HumanMessage ''hi'']) = Inl GraphRecursionError \<and>
   fst (chat_with_agent (Some chain_always_tool) sample_library sample_post 25 () ''hi'') =
     Inl (HTTPException 500 (''AI Agent Error: '' @ str_exn sample_library GraphRecursionError))"
proof -
  from never_final_runs_out [OF always_tool_never_answers, of Agent "[HumanMessage ''hi'']"
                               sample_library sample_post 25 "()"]
  have r: "fst (graph_invoke (Some chain_always_tool) sample_library sample_post 25 ()
                  [HumanMessage ''hi'']) = Inl GraphRecursionError"
    by (simp add: graph_invoke_def reducer_def)
  then show ?thesis
    by (cases "graph_invoke (Some chain_always_tool) sample_library sample_post 25 ()
                 [HumanMessage ''hi'']")
       (simp add: chat_of_run del: str_exn.simps)
qed

subsection \<open>The chat endpoint\<close>

text \<open>
  C7, evaluated with the model server down. The model chain was initialised, so the
  guard of \<open>chat_with_agent\<close> passes, and the first decision raises. The caller gets
  HTTP 500 with \<open>AI Agent Error:\<close> and the exception's text. HTTP 503, the
  service-unavailable answer, is what the guard gives, and only when the chain is
  \<open>None\<close>.
\<close>

theorem chat_first_step_failure_gives_500:
  "chain_down () [HumanMessage ''hi''] = (Inl (Raised ''connection refused''), ()) \<and>
   chat_with_agent (Some chain_down) sample_library sample_post 25 () ''hi'' =
     (Inl (HTTPException 500 ''AI Agent Error: connection refused''), ()) \<and>
   chat_with_agent None sample_library sample_post 25 () ''hi'' =
     (Inl (HTTPException 503 ''LLM backend is unavailable. Please ensure Ollama is running.''),
      ())"
  using chat_outcomes
          [where chain = chain_down and lib = sample_library and post = sample_post
             and limit = 25 and w = "()" and user_text = "''hi''"
             and e = "Raised ''connection refused''" and w' = "()"]
  by (simp add: chain_down_def)

subsection \<open>Unknown tools in the loop\<close>




end
